theory Spec2Isabelle
  imports Complex_Main
begin

section \<open>Diagnostic normalizer: \<^verbatim>\<open>parseErrorLog\<close>\<close>

text \<open>
  The source rewrites a compiler log with one regular-expression replacement:
  \<^verbatim>\<open>log.replace(/ERROR: \d+:(\d+):/g, (match, line) => {
      const adjusted = Math.max(1, parseInt(line) - offset);
      return `ERROR: line ${adjusted}:`; })\<close>
  The model spells the regular expression out.  \<^verbatim>\<open>\d\<close> is an ASCII digit;
  \<^verbatim>\<open>\d+\<close> is greedy, and since the character that has to follow it is a colon (not
  a digit) the longest run of digits is the only candidate, so the matcher is
  deterministic.  With the \<^verbatim>\<open>g\<close> flag the scan goes left to right and resumes after
  each match.

  Numbers: \<^verbatim>\<open>parseInt\<close> of a digit string and the subtraction are exact on JavaScript
  numbers up to \<open>2^53\<close>, which covers every line number a compiler reports; the model
  uses unbounded integers and follows the source on that range.
\<close>

definition isDigit :: "char \<Rightarrow> bool" where
  "isDigit c = (c \<in> set ''0123456789'')"

definition digitVal :: "char \<Rightarrow> nat" where
  "digitVal c = of_char c - 48"

definition parseInt :: "string \<Rightarrow> nat" where
  "parseInt ds = foldl (\<lambda>n c. 10 * n + digitVal c) 0 ds"

definition digitChar :: "nat \<Rightarrow> char" where
  "digitChar d = ''0123456789'' ! d"

text \<open>The decimal text of a non-negative integer, as a template literal prints it.\<close>

fun numberToString :: "nat \<Rightarrow> string" where
  "numberToString n =
     (if n < 10 then [digitChar n]
      else numberToString (n div 10) @ [digitChar (n mod 10)])"

declare numberToString.simps [simp del]

fun stripPrefix :: "string \<Rightarrow> string \<Rightarrow> string option" where
  "stripPrefix [] s = Some s"
| "stripPrefix (p # ps) [] = None"
| "stripPrefix (p # ps) (c # cs) = (if p = c then stripPrefix ps cs else None)"

text \<open>
  One attempt of the regular expression at the start of \<open>s\<close>: the captured group
  \<open>line\<close> and the text after the match, or \<open>None\<close>.
\<close>

definition matchError :: "string \<Rightarrow> (string \<times> string) option" where
  "matchError s =
     (case stripPrefix ''ERROR: '' s of
        None \<Rightarrow> None
      | Some s1 \<Rightarrow>
          if takeWhile isDigit s1 = [] then None
          else (case dropWhile isDigit s1 of
                  [] \<Rightarrow> None
                | c2 # s3 \<Rightarrow>
                    if c2 \<noteq> CHR '':'' \<or> takeWhile isDigit s3 = [] then None
                    else (case dropWhile isDigit s3 of
                            [] \<Rightarrow> None
                          | c4 # s5 \<Rightarrow>
                              if c4 = CHR '':'' then Some (takeWhile isDigit s3, s5)
                              else None)))"

lemma stripPrefix_length:
  "stripPrefix p s = Some r \<Longrightarrow> length s = length p + length r"
  by (induction p s rule: stripPrefix.induct) (auto split: if_splits)

lemma matchError_shorter:
  assumes "matchError s = Some (line, rest)"
  shows "length rest < length s"
proof -
  from assms obtain s1 c2 s3 c4 where
    s1: "stripPrefix ''ERROR: '' s = Some s1"
    and s3: "dropWhile isDigit s1 = c2 # s3"
    and s5: "dropWhile isDigit s3 = c4 # rest"
    by (auto simp: matchError_def split: option.splits list.splits if_splits)
  have "length rest < length s3"
    using length_dropWhile_le [of isDigit s3] s5 by simp
  also have "length s3 < length s1"
    using length_dropWhile_le [of isDigit s1] s3 by simp
  also have "length s1 \<le> length s"
    using stripPrefix_length [OF s1] by simp
  finally show ?thesis .
qed

text \<open>The replacement callback: \<^verbatim>\<open>`ERROR: line ${Math.max(1, parseInt(line) - offset)}:`\<close>.\<close>

definition replacement :: "string \<Rightarrow> int \<Rightarrow> string" where
  "replacement line offset =
     (let adjusted = max 1 (int (parseInt line) - offset)
      in ''ERROR: line '' @ numberToString (nat adjusted) @ '':'')"

function parseErrorLog :: "string \<Rightarrow> int \<Rightarrow> string" where
  "parseErrorLog [] offset = []"
| "parseErrorLog (c # cs) offset =
     (case matchError (c # cs) of
        Some (line, rest) \<Rightarrow> replacement line offset @ parseErrorLog rest offset
      | None \<Rightarrow> c # parseErrorLog cs offset)"
  by pat_completeness auto
termination
  by (relation "measure (\<lambda>(s, offset). length s)")
     (auto dest: matchError_shorter)

declare parseErrorLog.simps(2) [simp del]


definition digits :: "string \<Rightarrow> bool" where
  "digits ds = (ds \<noteq> [] \<and> list_all isDigit ds)"




section \<open>The validation effect of \<^verbatim>\<open>ShaderMesh\<close>\<close>

definition newline :: char where
  "newline = CHR 0x0A"

text \<open>
  The two template literals of the source: each starts with a line break and every line
  of text ends with one.
\<close>

definition THREE_VERTEX_PREFIX :: string where
  "THREE_VERTEX_PREFIX = concat
     [[newline],
      ''#define SHADER_NAME ShaderMaterial'', [newline],
      ''#define VERTEX'', [newline],
      ''precision highp float;'', [newline],
      ''uniform mat4 modelMatrix;'', [newline],
      ''uniform mat4 modelViewMatrix;'', [newline],
      ''uniform mat4 projectionMatrix;'', [newline],
      ''uniform mat4 viewMatrix;'', [newline],
      ''uniform mat3 normalMatrix;'', [newline],
      ''uniform vec3 cameraPosition;'', [newline],
      ''attribute vec3 position;'', [newline],
      ''attribute vec3 normal;'', [newline],
      ''attribute vec2 uv;'', [newline]]"

definition THREE_FRAGMENT_PREFIX :: string where
  "THREE_FRAGMENT_PREFIX = concat
     [[newline],
      ''#define SHADER_NAME ShaderMaterial'', [newline],
      ''#define FRAGMENT'', [newline],
      ''precision highp float;'', [newline],
      ''uniform mat4 viewMatrix;'', [newline],
      ''uniform vec3 cameraPosition;'', [newline]]"

definition countLines :: "string \<Rightarrow> nat" where
  "countLines str = length (filter (\<lambda>c. c = newline) str)"

definition VERTEX_OFFSET :: nat where
  "VERTEX_OFFSET = countLines THREE_VERTEX_PREFIX"

definition FRAGMENT_OFFSET :: nat where
  "FRAGMENT_OFFSET = countLines THREE_FRAGMENT_PREFIX"

subsection \<open>The WebGL context\<close>

text \<open>
  The effect creates a WebGL2 context of its own for every run and talks to it through
  \<^verbatim>\<open>createShader\<close>, \<^verbatim>\<open>shaderSource\<close>, \<^verbatim>\<open>compileShader\<close>, \<^verbatim>\<open>getShaderParameter\<close>,
  \<^verbatim>\<open>getShaderInfoLog\<close>, \<^verbatim>\<open>deleteShader\<close>, \<^verbatim>\<open>createProgram\<close>, \<^verbatim>\<open>attachShader\<close>,
  \<^verbatim>\<open>linkProgram\<close>, \<^verbatim>\<open>getProgramParameter\<close>, \<^verbatim>\<open>getProgramInfoLog\<close> and
  \<^verbatim>\<open>deleteProgram\<close>.  What the driver answers is a parameter of the model
  (\<open>glDriver\<close>): whether a context and the objects can be created, the compile status
  and the information log of a stage for a source text, the link status and the program's
  log for a pair of sources.  A log is \<^verbatim>\<open>string | null\<close>, here \<open>string option\<close>.
  The context (\<open>glContext\<close>) records the objects that are alive and the calls that
  change it, in order.
\<close>

datatype shaderType = VERTEX_SHADER | FRAGMENT_SHADER

datatype glCall =
    CreateShader shaderType
  | ShaderSource nat string
  | CompileShader nat
  | DeleteShader nat
  | CreateProgram
  | AttachShader nat nat
  | LinkProgram nat
  | DeleteProgram nat

record glDriver =
  contextAvailable :: bool
  createShaderOk :: "shaderType \<Rightarrow> bool"
  compileStatus :: "shaderType \<Rightarrow> string \<Rightarrow> bool"
  shaderInfoLog :: "shaderType \<Rightarrow> string \<Rightarrow> string option"
  createProgramOk :: bool
  linkStatus :: "string \<Rightarrow> string \<Rightarrow> bool"
  programInfoLog :: "string \<Rightarrow> string \<Rightarrow> string option"

record glContext =
  nextHandle :: nat
  liveShaders :: "nat list"
  livePrograms :: "nat list"
  calls :: "glCall list"

definition newContext :: glContext where
  "newContext = \<lparr>nextHandle = 0, liveShaders = [], livePrograms = [], calls = []\<rparr>"

definition createShader :: "glDriver \<Rightarrow> shaderType \<Rightarrow> glContext \<Rightarrow> nat option \<times> glContext" where
  "createShader gl ty c =
     (if createShaderOk gl ty
      then (Some (nextHandle c),
            c\<lparr>nextHandle := Suc (nextHandle c),
              liveShaders := liveShaders c @ [nextHandle c],
              calls := calls c @ [CreateShader ty]\<rparr>)
      else (None, c\<lparr>calls := calls c @ [CreateShader ty]\<rparr>))"

definition deleteShader :: "nat \<Rightarrow> glContext \<Rightarrow> glContext" where
  "deleteShader h c =
     c\<lparr>liveShaders := removeAll h (liveShaders c), calls := calls c @ [DeleteShader h]\<rparr>"

definition createProgram :: "glDriver \<Rightarrow> glContext \<Rightarrow> nat option \<times> glContext" where
  "createProgram gl c =
     (if createProgramOk gl
      then (Some (nextHandle c),
            c\<lparr>nextHandle := Suc (nextHandle c),
              livePrograms := livePrograms c @ [nextHandle c],
              calls := calls c @ [CreateProgram]\<rparr>)
      else (None, c\<lparr>calls := calls c @ [CreateProgram]\<rparr>))"

definition deleteProgram :: "nat \<Rightarrow> glContext \<Rightarrow> glContext" where
  "deleteProgram p c =
     c\<lparr>livePrograms := removeAll p (livePrograms c), calls := calls c @ [DeleteProgram p]\<rparr>"

definition record_calls :: "glCall list \<Rightarrow> glContext \<Rightarrow> glContext" where
  "record_calls cs c = c\<lparr>calls := calls c @ cs\<rparr>"

subsection \<open>\<^verbatim>\<open>compile\<close>\<close>

record compileResult =
  error :: "string option"
  shader :: "nat option"

definition compile ::
    "glDriver \<Rightarrow> shaderType \<Rightarrow> string \<Rightarrow> glContext \<Rightarrow> compileResult \<times> glContext" where
  "compile gl ty source c =
     (case createShader gl ty c of
        (None, c1) \<Rightarrow> (\<lparr>error = Some ''Failed to create shader'', shader = None\<rparr>, c1)
      | (Some sh, c1) \<Rightarrow>
          let c2 = record_calls [ShaderSource sh source, CompileShader sh] c1 in
          if \<not> compileStatus gl ty source
          then (\<lparr>error = shaderInfoLog gl ty source, shader = None\<rparr>, deleteShader sh c2)
          else (\<lparr>error = None, shader = Some sh\<rparr>, c2))"

text \<open>
  \<^verbatim>\<open>if (vsResult.error)\<close> tests a \<^verbatim>\<open>string | null\<close> for truthiness: \<^verbatim>\<open>null\<close> and
  the empty string are falsy.  A template literal prints \<^verbatim>\<open>null\<close> as the text
  \<^verbatim>\<open>null\<close>.
\<close>

definition truthy :: "string option \<Rightarrow> bool" where
  "truthy e = (case e of None \<Rightarrow> False | Some s \<Rightarrow> s \<noteq> [])"

definition interpolate :: "string option \<Rightarrow> string" where
  "interpolate e = (case e of None \<Rightarrow> ''null'' | Some s \<Rightarrow> s)"


section \<open>The uniform table and the state of \<^verbatim>\<open>ShaderMesh\<close>\<close>

text \<open>
  Values of the uniform table are JavaScript values of several kinds; the table is typed
  \<^verbatim>\<open>any\<close> in the source and a declaration may use any name, so an entry can come
  to hold a value of another kind than the one it started with.  An argument of a
  constructor or an element of an array is a number or \<^verbatim>\<open>undefined\<close> (\<open>None\<close>).
  Numbers are modelled as reals: the claims are about which value reaches which slot, not
  about rounding, and \<^verbatim>\<open>NaN\<close> and the infinities are not represented.  The objects of
  the rendering library (\<^verbatim>\<open>Vector2\<close>, \<^verbatim>\<open>Vector3\<close>, \<^verbatim>\<open>Vector4\<close>, \<^verbatim>\<open>Matrix3\<close>,
  \<^verbatim>\<open>Matrix4\<close>, \<^verbatim>\<open>Texture\<close>) are constructors applied to the arguments the source
  passes; of a texture only the address and the two wrap modes are kept (the image, which
  the loader fills in later, is not).
\<close>

type_synonym arg = "real option"

datatype wrapping = RepeatWrapping | ClampToEdgeWrapping | MirroredRepeatWrapping

datatype jsval =
    Num real
  | Str string
  | NumArr "arg list"
  | Vec3Arr "(arg \<times> arg \<times> arg) list"
  | Vector2 arg arg
  | Vector3 arg arg arg
  | Vector4 arg arg arg arg
  | Matrix3 "arg list"
  | Matrix4 "arg list"
  | Texture string wrapping wrapping

type_synonym uniformTable = "string \<rightharpoonup> jsval"

record material =
  needsUpdate :: bool
  uniformsNeedUpdate :: bool

definition newMaterial :: material where
  "newMaterial = \<lparr>needsUpdate = False, uniformsNeedUpdate = False\<rparr>"

text \<open>
  The state of the component: the two pieces of React state, the table built once by
  \<^verbatim>\<open>useMemo(..., [])\<close>, and the material the ref points to.  The table is passed as
  the \<^verbatim>\<open>uniforms\<close> prop to every material instance and the instance keeps that very
  object, so \<^verbatim>\<open>materialRef.current.uniforms\<close> is the field \<open>uniforms\<close> of this record
  whenever a material is mounted.
\<close>

record shaderMesh =
  safeVertex :: string
  safeFragment :: string
  uniforms :: uniformTable
  materialRef :: "material option"

text \<open>The table as \<^verbatim>\<open>useMemo\<close> builds it.\<close>

definition initialUniforms :: uniformTable where
  "initialUniforms =
     [''u_time'' \<mapsto> Num 0,
      ''u_resolution'' \<mapsto> Vector2 None None,
      ''u_mouse'' \<mapsto> Vector2 None None,
      ''u_cameraPosition'' \<mapsto> Vector3 None None None,
      ''u_lightPos'' \<mapsto> Vec3Arr (replicate 4 (None, None, None)),
      ''u_lightColor'' \<mapsto> Vec3Arr (replicate 4 (None, None, None)),
      ''u_lightIntensity'' \<mapsto> NumArr (replicate 4 (Some 0))]"

definition mount :: "string \<Rightarrow> string \<Rightarrow> shaderMesh" where
  "mount vertexShader fragmentShader =
     \<lparr>safeVertex = vertexShader, safeFragment = fragmentShader,
      uniforms = initialUniforms, materialRef = Some newMaterial\<rparr>"

text \<open>
  \<^verbatim>\<open>const materialKey = `${safeVertex}-${safeFragment}`\<close>: when the key changes React
  builds a new material (which receives the same table); otherwise the instance stays.
\<close>

definition materialKey :: "shaderMesh \<Rightarrow> string" where
  "materialKey st = safeVertex st @ ''-'' @ safeFragment st"

definition setSafe :: "string \<Rightarrow> string \<Rightarrow> shaderMesh \<Rightarrow> shaderMesh" where
  "setSafe vertexShader fragmentShader st =
     (let st' = st\<lparr>safeVertex := vertexShader, safeFragment := fragmentShader\<rparr>
      in if materialKey st' = materialKey st then st'
         else st'\<lparr>materialRef := Some newMaterial\<rparr>)"

subsection \<open>The validation effect\<close>

text \<open>
  What the effect tells its parent: nothing (no WebGL2 context), \<^verbatim>\<open>onError(msg)\<close> or
  \<^verbatim>\<open>onSuccess()\<close>; a callback is invoked when the prop is present.
\<close>

datatype report = NoReport | OnError string | OnSuccess

text \<open>
  Step 4 of the effect: attach and link when the program and both shaders exist; the
  result is \<open>Some info\<close> when the link status is false.
\<close>

definition link ::
    "glDriver \<Rightarrow> string \<Rightarrow> string \<Rightarrow> nat option \<Rightarrow> nat option \<Rightarrow> nat option \<Rightarrow> glContext
      \<Rightarrow> string option option \<times> glContext" where
  "link gl vsSource fsSource program vs fs c =
     (case program of
        None \<Rightarrow> (None, c)
      | Some p \<Rightarrow>
          (case vs of
             None \<Rightarrow> (None, c)
           | Some v \<Rightarrow>
               (case fs of
                  None \<Rightarrow> (None, c)
                | Some f \<Rightarrow>
                    let c1 = record_calls [AttachShader p v, AttachShader p f, LinkProgram p] c
                    in if linkStatus gl vsSource fsSource then (None, c1)
                       else (Some (programInfoLog gl vsSource fsSource), c1))))"

definition cleanup :: "nat option \<Rightarrow> nat option \<Rightarrow> nat option \<Rightarrow> glContext \<Rightarrow> glContext" where
  "cleanup vs fs program c =
     (let c1 = (case vs of None \<Rightarrow> c | Some v \<Rightarrow> deleteShader v c);
          c2 = (case fs of None \<Rightarrow> c1 | Some f \<Rightarrow> deleteShader f c1)
      in case program of None \<Rightarrow> c2 | Some p \<Rightarrow> deleteProgram p c2)"

definition validate ::
    "glDriver \<Rightarrow> string \<Rightarrow> string \<Rightarrow> shaderMesh \<Rightarrow> shaderMesh \<times> report \<times> glContext" where
  "validate gl vertexShader fragmentShader st =
     (if \<not> contextAvailable gl then (st, NoReport, newContext)
      else
        let vsSource = THREE_VERTEX_PREFIX @ vertexShader;
            fsSource = THREE_FRAGMENT_PREFIX @ fragmentShader;
            (vsResult, c1) = compile gl VERTEX_SHADER vsSource newContext;
            (fsResult, c2) = compile gl FRAGMENT_SHADER fsSource c1
        in if truthy (error vsResult)
           then (st,
                 OnError (''VERTEX SHADER ERROR:'' @ [newline] @
                          parseErrorLog (the (error vsResult)) (int VERTEX_OFFSET)),
                 c2)
           else if truthy (error fsResult)
           then (st,
                 OnError (''FRAGMENT SHADER ERROR:'' @ [newline] @
                          parseErrorLog (the (error fsResult)) (int FRAGMENT_OFFSET)),
                 c2)
           else
             let (program, c3) = createProgram gl c2
             in case link gl vsSource fsSource program (shader vsResult) (shader fsResult) c3 of
                  (Some info, c4) \<Rightarrow>
                    (st,
                     OnError (''LINKER ERROR (Varying Mismatch?):'' @ [newline] @ interpolate info),
                     c4)
                | (None, c4) \<Rightarrow>
                    (setSafe vertexShader fragmentShader st,
                     OnSuccess,
                     cleanup (shader vsResult) (shader fsResult) program c4))"


section \<open>Uniform reconciliation\<close>

datatype UniformType = FLOAT | VEC2 | VEC3 | VEC4 | MAT3 | MAT4 | SAMPLER_2D

datatype TextureWrapMode = REPEAT | CLAMP | MIRROR

datatype Binding = TIME | MOUSE

text \<open>\<^verbatim>\<open>value: number | number[] | string\<close>.\<close>

datatype uniformValue = Number real | Array "real list" | Text string

record CustomUniform =
  uniform_id :: string
  name :: string
  type :: UniformType
  value' :: uniformValue
  binding :: "Binding option"
  wrap :: "TextureWrapMode option"

record Light =
  light_id :: string
  position :: "real \<times> real \<times> real"
  color :: string
  intensity :: real

text \<open>
  Failures of the JavaScript run: a \<^verbatim>\<open>TypeError\<close> (a property of \<^verbatim>\<open>undefined\<close> is
  read, a method that does not exist is called, or a property of a number or a string is
  assigned, which raises in module code), and \<open>OutsideModel\<close> where the source calls a
  library method (\<^verbatim>\<open>set\<close>, \<^verbatim>\<open>copy\<close>) on a library object of another class than the
  one the table was built with, would store a number in an array of vectors, or stores a
  property on one of the objects of \<^verbatim>\<open>Object.prototype\<close>: the model does not follow
  such a run.
\<close>

datatype jsError = TypeError | OutsideModel

definition andThen :: "jsError + 'a \<Rightarrow> ('a \<Rightarrow> jsError + 'b) \<Rightarrow> jsError + 'b" where
  "andThen m f = (case m of Inl e \<Rightarrow> Inl e | Inr a \<Rightarrow> f a)"

fun forEach :: "('a \<Rightarrow> 's \<Rightarrow> jsError + 's) \<Rightarrow> 'a list \<Rightarrow> 's \<Rightarrow> jsError + 's" where
  "forEach f [] s = Inr s"
| "forEach f (x # xs) s = andThen (f x s) (forEach f xs)"

text \<open>\<^verbatim>\<open>v[i]\<close> on an array of numbers: \<^verbatim>\<open>undefined\<close> past the end.\<close>

definition elementAt :: "real list \<Rightarrow> nat \<Rightarrow> arg" where
  "elementAt v i = (if i < length v then Some (v ! i) else None)"

text \<open>
  The table is an object literal, so \<^verbatim>\<open>uniforms[cu.name]\<close> also finds what the table
  inherits from \<^verbatim>\<open>Object.prototype\<close>.  Under one of the names below, and when the table
  has no entry of its own under it, the lookup yields a function of the prototype (under
  \<^verbatim>\<open>__proto__\<close> the prototype itself): a truthy value that is no entry of the table
  and has no property \<^verbatim>\<open>value\<close>.  Reading \<^verbatim>\<open>value\<close> from it gives
  \<^verbatim>\<open>undefined\<close>; storing \<^verbatim>\<open>value\<close> on it changes an object that all code of the
  page shares, which is where the model stops (\<open>OutsideModel\<close>).
\<close>

definition objectPrototypeNames :: "string list" where
  "objectPrototypeNames =
     [''constructor'', ''__defineGetter__'', ''__defineSetter__'', ''hasOwnProperty'',
      ''__lookupGetter__'', ''__lookupSetter__'', ''isPrototypeOf'', ''propertyIsEnumerable'',
      ''toString'', ''valueOf'', ''__proto__'', ''toLocaleString'']"

definition getWrapMode :: "TextureWrapMode option \<Rightarrow> wrapping" where
  "getWrapMode mode =
     (case mode of
        Some CLAMP \<Rightarrow> ClampToEdgeWrapping
      | Some MIRROR \<Rightarrow> MirroredRepeatWrapping
      | Some REPEAT \<Rightarrow> RepeatWrapping
      | None \<Rightarrow> RepeatWrapping)"

text \<open>
  The chain of \<^verbatim>\<open>if (cu.type === ... && Array.isArray(v))\<close> that computes
  \<^verbatim>\<open>initialValue\<close>, in the order of the source; the last equations are the final
  \<^verbatim>\<open>else\<close>, which passes \<^verbatim>\<open>v\<close> through.  A texture the loader returns has the
  library's default wrap modes.
\<close>

fun initialValue :: "UniformType \<Rightarrow> uniformValue \<Rightarrow> jsval" where
  "initialValue VEC3 (Array v) = Vector3 (elementAt v 0) (elementAt v 1) (elementAt v 2)"
| "initialValue VEC2 (Array v) = Vector2 (elementAt v 0) (elementAt v 1)"
| "initialValue VEC4 (Array v) = Vector4 (elementAt v 0) (elementAt v 1) (elementAt v 2) (elementAt v 3)"
| "initialValue MAT3 (Array v) = Matrix3 (map (elementAt v) [0..<9])"
| "initialValue MAT4 (Array v) = Matrix4 (map (elementAt v) [0..<16])"
| "initialValue SAMPLER_2D (Text v) = Texture v ClampToEdgeWrapping ClampToEdgeWrapping"
| "initialValue t (Number v) = Num v"
| "initialValue t (Array v) = NumArr (map Some v)"
| "initialValue t (Text v) = Str v"

text \<open>
  The wrap-mode block: it acts when the entry holds a texture (\<^verbatim>\<open>texture &&
  texture.isTexture\<close>) whose modes differ from the requested one.  The texture's own
  \<^verbatim>\<open>needsUpdate\<close> flag, which only the renderer reads, is not kept.  The block runs
  after the branch that has found or created \<^verbatim>\<open>uniforms[cu.name]\<close>; where the lookup
  found an object of the prototype, \<^verbatim>\<open>value\<close> is \<^verbatim>\<open>undefined\<close> and the block does
  nothing.
\<close>

definition applyWrap :: "CustomUniform \<Rightarrow> uniformTable \<times> material \<Rightarrow> uniformTable \<times> material" where
  "applyWrap cu um =
     (case fst um (name cu) of
        Some (Texture url wrapS wrapT) \<Rightarrow>
          if wrapS \<noteq> getWrapMode (wrap cu) \<or> wrapT \<noteq> getWrapMode (wrap cu)
          then ((fst um)(name cu \<mapsto> Texture url (getWrapMode (wrap cu)) (getWrapMode (wrap cu))),
                (snd um)\<lparr>needsUpdate := True\<rparr>)
          else um
      | _ \<Rightarrow> um)"

text \<open>
  The body of \<^verbatim>\<open>customUniforms.forEach(cu => ...)\<close> in the reconciliation effect.
  \<^verbatim>\<open>if (materialRef.current.uniforms[cu.name])\<close> has three outcomes: an entry of the
  table (the branch that updates it unless the declaration is bound), an object inherited
  from the prototype (the same branch, where the update would store \<^verbatim>\<open>value\<close> on that
  object), or nothing (the branch that creates the entry).
\<close>

definition syncUniform ::
    "CustomUniform \<Rightarrow> uniformTable \<times> material \<Rightarrow> jsError + uniformTable \<times> material" where
  "syncUniform cu um =
     andThen
       (case fst um (name cu) of
          Some old \<Rightarrow>
            if binding cu = None
            then Inr ((fst um)(name cu \<mapsto> initialValue (type cu) (value' cu)), snd um)
            else Inr um
        | None \<Rightarrow>
            if name cu \<in> set objectPrototypeNames
            then (if binding cu = None then Inl OutsideModel else Inr um)
            else Inr ((fst um)(name cu \<mapsto> initialValue (type cu) (value' cu)),
                      (snd um)\<lparr>needsUpdate := True\<rparr>))
       (\<lambda>written. Inr (if type cu = SAMPLER_2D then applyWrap cu written else written))"

definition syncCustomUniforms ::
    "CustomUniform list \<Rightarrow> uniformTable \<times> material \<Rightarrow> jsError + uniformTable \<times> material" where
  "syncCustomUniforms customUniforms um = forEach syncUniform customUniforms um"

subsection \<open>Lights\<close>

text \<open>
  \<^verbatim>\<open>arr[i] = x\<close> on the value of an entry.  On an array of numbers it stores the number,
  growing the array when \<open>i\<close> is past its end; on a library object it adds a property of
  that name, which nothing reads and the model does not keep; on a number or a string it
  raises.
\<close>

definition arraySet :: "arg list \<Rightarrow> nat \<Rightarrow> real \<Rightarrow> arg list" where
  "arraySet xs i x =
     (if i < length xs then xs[i := Some x]
      else xs @ replicate (i - length xs) None @ [Some x])"

fun assignIndex :: "jsval \<Rightarrow> nat \<Rightarrow> real \<Rightarrow> jsError + jsval" where
  "assignIndex (NumArr xs) i x = Inr (NumArr (arraySet xs i x))"
| "assignIndex (Vec3Arr vs) i x = Inl OutsideModel"
| "assignIndex (Num n) i x = Inl TypeError"
| "assignIndex (Str s) i x = Inl TypeError"
| "assignIndex v i x = Inr v"

text \<open>The three fields of a \<^verbatim>\<open>Vector3\<close> after \<^verbatim>\<open>set(x, y, z)\<close> or \<^verbatim>\<open>copy(p)\<close>.\<close>

definition components :: "real \<times> real \<times> real \<Rightarrow> arg \<times> arg \<times> arg" where
  "components p = (Some (fst p), Some (fst (snd p)), Some (snd (snd p)))"

text \<open>
  \<^verbatim>\<open>arr[i].set(x, y, z)\<close>: defined when the entry holds an array of vectors that has an
  element \<open>i\<close>.  Every other value has no element \<open>i\<close> with a method \<^verbatim>\<open>set\<close>.
\<close>

fun setElement :: "jsval \<Rightarrow> nat \<Rightarrow> real \<times> real \<times> real \<Rightarrow> jsError + jsval" where
  "setElement (Vec3Arr vs) i p =
     (if i < length vs then Inr (Vec3Arr (vs[i := components p])) else Inl TypeError)"
| "setElement v i p = Inl TypeError"

text \<open>\<^verbatim>\<open>materialRef.current.uniforms.u_lightPos.value\<close>: the entry has to exist.\<close>

definition entryValue :: "uniformTable \<Rightarrow> string \<Rightarrow> jsError + jsval" where
  "entryValue u n = (case u n of None \<Rightarrow> Inl TypeError | Some v \<Rightarrow> Inr v)"

text \<open>
  The three arrays the effect reads from the table and mutates in place.
\<close>

record lightArrays =
  lightPositions :: jsval
  lightColors :: jsval
  lightIntensities :: jsval

text \<open>\<^verbatim>\<open>for (let i = 0; i < 4; i++) lightIntensities[i] = 0\<close>.\<close>

definition resetAll :: "jsval \<Rightarrow> jsError + jsval" where
  "resetAll li = forEach (\<lambda>i v. assignIndex v i 0) [0..<4] li"

text \<open>
  The body of \<^verbatim>\<open>lights.slice(0, 4).forEach((light, i) => ...)\<close>.  The colour parser of
  the rendering library (\<^verbatim>\<open>new THREE.Color(light.color)\<close>, read through
  \<^verbatim>\<open>r\<close>, \<^verbatim>\<open>g\<close>, \<^verbatim>\<open>b\<close>) is the parameter \<open>Color\<close>.
\<close>

definition syncLight ::
    "(string \<Rightarrow> real \<times> real \<times> real) \<Rightarrow> Light \<times> nat \<Rightarrow> lightArrays \<Rightarrow> jsError + lightArrays" where
  "syncLight Color li a =
     andThen (setElement (lightPositions a) (snd li) (position (fst li))) (\<lambda>lp.
     andThen (setElement (lightColors a) (snd li) (Color (color (fst li)))) (\<lambda>lc.
     andThen (assignIndex (lightIntensities a) (snd li) (intensity (fst li))) (\<lambda>lint.
     Inr \<lparr>lightPositions = lp, lightColors = lc, lightIntensities = lint\<rparr>)))"

definition enumerate_from0 :: "'a list \<Rightarrow> ('a \<times> nat) list" where
  "enumerate_from0 xs = zip xs [0..<length xs]"

definition syncLights ::
    "(string \<Rightarrow> real \<times> real \<times> real) \<Rightarrow> Light list \<Rightarrow> uniformTable \<Rightarrow> jsError + uniformTable" where
  "syncLights Color lights u =
     andThen (entryValue u ''u_lightPos'') (\<lambda>lp.
     andThen (entryValue u ''u_lightColor'') (\<lambda>lc.
     andThen (entryValue u ''u_lightIntensity'') (\<lambda>li.
     andThen (resetAll li) (\<lambda>li0.
     andThen (forEach (syncLight Color) (enumerate_from0 (take 4 lights))
                \<lparr>lightPositions = lp, lightColors = lc, lightIntensities = li0\<rparr>) (\<lambda>a.
     Inr (u(''u_lightPos'' \<mapsto> lightPositions a,
            ''u_lightColor'' \<mapsto> lightColors a,
            ''u_lightIntensity'' \<mapsto> lightIntensities a)))))))"

text \<open>The reconciliation effect (dependencies \<^verbatim>\<open>[customUniforms, lights]\<close>).\<close>

definition reconcile ::
    "(string \<Rightarrow> real \<times> real \<times> real) \<Rightarrow> CustomUniform list \<Rightarrow> Light list \<Rightarrow> shaderMesh
      \<Rightarrow> jsError + shaderMesh" where
  "reconcile Color customUniforms lights st =
     (case materialRef st of
        None \<Rightarrow> Inr st
      | Some m \<Rightarrow>
          andThen (syncCustomUniforms customUniforms (uniforms st, m)) (\<lambda>um.
          andThen (syncLights Color lights (fst um)) (\<lambda>u.
          Inr (st\<lparr>uniforms := u,
                  materialRef := Some ((snd um)\<lparr>uniformsNeedUpdate := True\<rparr>)\<rparr>))))"


section \<open>The render loop: \<^verbatim>\<open>useFrame\<close>\<close>











section \<open>The light list of \<^verbatim>\<open>Controls\<close>\<close>

text \<open>
  \<^verbatim>\<open>addLight\<close> draws the id of the new light from \<^verbatim>\<open>Math.random()\<close>; the id is a
  parameter here.
\<close>

definition addLight :: "string \<Rightarrow> Light list \<Rightarrow> Light list" where
  "addLight newId lights =
     (if length lights \<ge> 4 then lights
      else lights @ [\<lparr>light_id = newId, position = (2, 2, 2), color = ''#ffffff'',
                      intensity = 1\<rparr>])"

definition removeLight :: "string \<Rightarrow> Light list \<Rightarrow> Light list" where
  "removeLight i lights = filter (\<lambda>l. light_id l \<noteq> i) lights"

text \<open>\<^verbatim>\<open>{ ...l, [field]: value }\<close> for a field of \<^verbatim>\<open>Light\<close>.\<close>

datatype lightField =
    Field_id string
  | Field_position "real \<times> real \<times> real"
  | Field_color string
  | Field_intensity real

fun withField :: "Light \<Rightarrow> lightField \<Rightarrow> Light" where
  "withField l (Field_id v) = l\<lparr>light_id := v\<rparr>"
| "withField l (Field_position v) = l\<lparr>position := v\<rparr>"
| "withField l (Field_color v) = l\<lparr>color := v\<rparr>"
| "withField l (Field_intensity v) = l\<lparr>intensity := v\<rparr>"

definition updateLight :: "string \<Rightarrow> lightField \<Rightarrow> Light list \<Rightarrow> Light list" where
  "updateLight i field lights = map (\<lambda>l. if light_id l = i then withField l field else l) lights"

text \<open>A user action on the light list, and a sequence of them.\<close>

datatype lightAction =
    AddLight string
  | RemoveLight string
  | UpdateLight string lightField

fun perform :: "lightAction \<Rightarrow> Light list \<Rightarrow> Light list" where
  "perform (AddLight newId) lights = addLight newId lights"
| "perform (RemoveLight i) lights = removeLight i lights"
| "perform (UpdateLight i field) lights = updateLight i field lights"

definition performAll :: "lightAction list \<Rightarrow> Light list \<Rightarrow> Light list" where
  "performAll actions lights = foldl (\<lambda>ls a. perform a ls) lights actions"


section \<open>Shapes of the table that the statements below refer to\<close>










section \<open>Names in a shader source\<close>

text \<open>
  A program can declare a uniform only under a name that occurs in its source text;
  \<open>occursIn n src\<close> says that \<open>n\<close> occurs in \<open>src\<close>.
\<close>

fun occursIn :: "string \<Rightarrow> string \<Rightarrow> bool" where
  "occursIn n [] = (n = [])"
| "occursIn n (c # cs) =
     (case stripPrefix n (c # cs) of Some r \<Rightarrow> True | None \<Rightarrow> occursIn n cs)"

section \<open>Drivers and declarations used as concrete inputs\<close>

text \<open>A driver that accepts every shader and links every program.\<close>

definition acceptingDriver :: glDriver where
  "acceptingDriver =
     \<lparr>contextAvailable = True,
      createShaderOk = (\<lambda>ty. True),
      compileStatus = (\<lambda>ty source. True),
      shaderInfoLog = (\<lambda>ty source. Some []),
      createProgramOk = True,
      linkStatus = (\<lambda>vs fs. True),
      programInfoLog = (\<lambda>vs fs. Some [])\<rparr>"

text \<open>
  A driver that rejects the vertex stage and returns an empty information log, as WebGL
  does when it has no message (after a context loss the log is \<^verbatim>\<open>null\<close>, which is falsy
  in the same way).
\<close>

definition emptyLogDriver :: glDriver where
  "emptyLogDriver =
     \<lparr>contextAvailable = True,
      createShaderOk = (\<lambda>ty. True),
      compileStatus = (\<lambda>ty source. ty = FRAGMENT_SHADER),
      shaderInfoLog = (\<lambda>ty source. Some []),
      createProgramOk = True,
      linkStatus = (\<lambda>vs fs. True),
      programInfoLog = (\<lambda>vs fs. None)\<rparr>"

text \<open>A driver that rejects the vertex stage with a message for raw line 14.\<close>

definition vertexFailsDriver :: glDriver where
  "vertexFailsDriver =
     \<lparr>contextAvailable = True,
      createShaderOk = (\<lambda>ty. True),
      compileStatus = (\<lambda>ty source. ty = FRAGMENT_SHADER),
      shaderInfoLog = (\<lambda>ty source. Some ''ERROR: 0:14: x''),
      createProgramOk = True,
      linkStatus = (\<lambda>vs fs. True),
      programInfoLog = (\<lambda>vs fs. None)\<rparr>"

text \<open>A driver that accepts the vertex stage and rejects the fragment stage.\<close>

definition fragmentFailsDriver :: glDriver where
  "fragmentFailsDriver =
     \<lparr>contextAvailable = True,
      createShaderOk = (\<lambda>ty. True),
      compileStatus = (\<lambda>ty source. ty = VERTEX_SHADER),
      shaderInfoLog = (\<lambda>ty source. Some ''ERROR: 0:7: x''),
      createProgramOk = True,
      linkStatus = (\<lambda>vs fs. True),
      programInfoLog = (\<lambda>vs fs. None)\<rparr>"

text \<open>The declaration the \<^verbatim>\<open>1.0\<close> button of the controls adds first.\<close>

definition customFloat :: CustomUniform where
  "customFloat =
     \<lparr>uniform_id = ''k3j2h1g0f'', name = ''u_custom_1'', type = FLOAT, value' = Number 0.5,
      binding = None, wrap = None\<rparr>"








section \<open>Properties of the diagnostic normalizer\<close>

lemma digitVal_digitChar: "d < 10 \<Longrightarrow> digitVal (digitChar d) = d"
proof -
  assume "d < 10"
  then have "d \<in> {0,1,2,3,4,5,6,7,8,9}" by auto
  then show ?thesis by (auto simp: digitVal_def digitChar_def)
qed

lemma isDigit_digitChar: "d < 10 \<Longrightarrow> isDigit (digitChar d)"
proof -
  assume "d < 10"
  then have "d \<in> {0,1,2,3,4,5,6,7,8,9}" by auto
  then show ?thesis by (auto simp: isDigit_def digitChar_def)
qed

lemma parseInt_snoc: "parseInt (ds @ [c]) = 10 * parseInt ds + digitVal c"
  by (simp add: parseInt_def)

lemma parseInt_numberToString: "parseInt (numberToString n) = n"
proof (induction n rule: numberToString.induct)
  case (1 n)
  show ?case
  proof (cases "n < 10")
    case True
    then show ?thesis by (simp add: numberToString.simps[of n] parseInt_def digitVal_digitChar)
  next
    case False
    with 1 show ?thesis
      by (simp add: numberToString.simps[of n] parseInt_snoc digitVal_digitChar)
  qed
qed

lemma digits_numberToString: "digits (numberToString n)"
proof (induction n rule: numberToString.induct)
  case (1 n)
  show ?case
  proof (cases "n < 10")
    case True
    then show ?thesis by (simp add: numberToString.simps[of n] digits_def isDigit_digitChar)
  next
    case False
    with 1 show ?thesis
      by (simp add: numberToString.simps[of n] digits_def isDigit_digitChar)
  qed
qed















section \<open>Properties of the validation effect\<close>

lemma VERTEX_OFFSET_eq: "VERTEX_OFFSET = 13"
  by (simp add: VERTEX_OFFSET_def countLines_def THREE_VERTEX_PREFIX_def newline_def)

lemma FRAGMENT_OFFSET_eq: "FRAGMENT_OFFSET = 6"
  by (simp add: FRAGMENT_OFFSET_def countLines_def THREE_FRAGMENT_PREFIX_def newline_def)

lemmas gl_defs = compile_def createShader_def deleteShader_def createProgram_def
  deleteProgram_def record_calls_def link_def cleanup_def newContext_def truthy_def
  interpolate_def

text \<open>
  What the effect does with the active pair: it is replaced, both components at once, by
  the draft exactly when the effect reports success, and is left as it was otherwise.
\<close>

lemma validate_commit_or_freeze:
  "(fst (snd (validate gl v f st)) = OnSuccess \<and>
      safeVertex (fst (validate gl v f st)) = v \<and> safeFragment (fst (validate gl v f st)) = f \<and>
      uniforms (fst (validate gl v f st)) = uniforms st) \<or>
   (fst (snd (validate gl v f st)) \<noteq> OnSuccess \<and> fst (validate gl v f st) = st)"
  by (simp add: validate_def setSafe_def Let_def split: prod.splits option.splits)

text \<open>
  Claim C1, at the input where the code departs from it.  The driver rejects the vertex
  stage (\<^verbatim>\<open>COMPILE_STATUS\<close> is false) and its information log is empty.  \<open>compile\<close>
  returns \<^verbatim>\<open>{ error: "", shader: null }\<close>, the test \<^verbatim>\<open>if (vsResult.error)\<close> is
  falsy, linking is skipped because there is no vertex shader, and the effect calls
  \<^verbatim>\<open>onSuccess\<close> and promotes the draft whose vertex stage failed to compile.
\<close>

theorem failed_vertex_with_empty_log_is_promoted:
  "\<not> compileStatus emptyLogDriver VERTEX_SHADER (THREE_VERTEX_PREFIX @ ''broken'') \<and>
   validate emptyLogDriver ''broken'' ''f'' (mount ''v'' ''f'') =
     ((mount ''v'' ''f'')\<lparr>safeVertex := ''broken''\<rparr>,
      OnSuccess,
      \<lparr>nextHandle = 3, liveShaders = [], livePrograms = [],
       calls = [CreateShader VERTEX_SHADER,
                ShaderSource 0 (THREE_VERTEX_PREFIX @ ''broken''), CompileShader 0, DeleteShader 0,
                CreateShader FRAGMENT_SHADER,
                ShaderSource 1 (THREE_FRAGMENT_PREFIX @ ''f''), CompileShader 1,
                CreateProgram, DeleteShader 1, DeleteProgram 2]\<rparr>)"
  by (simp add: validate_def emptyLogDriver_def gl_defs setSafe_def materialKey_def mount_def)

text \<open>
  Claim C2 as stated fails: with a driver that rejects the vertex stage, the fragment
  source is handed to \<^verbatim>\<open>shaderSource\<close> and \<^verbatim>\<open>compileShader\<close> all the same.
\<close>

theorem fragment_is_compiled_after_vertex_failure:
  "\<not> compileStatus vertexFailsDriver VERTEX_SHADER (THREE_VERTEX_PREFIX @ ''broken'') \<and>
   ShaderSource 1 (THREE_FRAGMENT_PREFIX @ ''f'') \<in>
     set (calls (snd (snd (validate vertexFailsDriver ''broken'' ''f'' (mount ''v'' ''f''))))) \<and>
   CompileShader 1 \<in>
     set (calls (snd (snd (validate vertexFailsDriver ''broken'' ''f'' (mount ''v'' ''f'')))))"
  by (simp add: validate_def vertexFailsDriver_def gl_defs)

text \<open>
  Claim C2, amended.  Every attempt that obtains a context runs \<open>compile\<close> on the vertex
  stage and then on the fragment stage before it looks at either result: the calls start
  with \<^verbatim>\<open>createShader\<close> for the vertex stage, its source and compilation when the
  shader object exists (and its deletion when the compilation fails), followed by the
  same for the fragment stage, whatever the vertex stage did.  When the vertex result
  carries a non-empty message (the log of a failed compilation, or the message for a
  shader object that could not be created) no further call is made, the report is the
  vertex failure with its line numbers normalized by the 13 lines of the vertex preamble,
  and the active pair is unchanged.
\<close>

theorem vertex_failure_reported_after_both_compiles:
  assumes "contextAvailable gl"
  shows "\<exists>rest.
           calls (snd (snd (validate gl v f st))) =
             CreateShader VERTEX_SHADER #
             (if createShaderOk gl VERTEX_SHADER
              then [ShaderSource 0 (THREE_VERTEX_PREFIX @ v), CompileShader 0] @
                   (if compileStatus gl VERTEX_SHADER (THREE_VERTEX_PREFIX @ v) then []
                    else [DeleteShader 0])
              else []) @
             CreateShader FRAGMENT_SHADER #
             (if createShaderOk gl FRAGMENT_SHADER
              then [ShaderSource (if createShaderOk gl VERTEX_SHADER then 1 else 0)
                      (THREE_FRAGMENT_PREFIX @ f),
                    CompileShader (if createShaderOk gl VERTEX_SHADER then 1 else 0)] @
                   (if compileStatus gl FRAGMENT_SHADER (THREE_FRAGMENT_PREFIX @ f) then []
                    else [DeleteShader (if createShaderOk gl VERTEX_SHADER then 1 else 0)])
              else []) @
             rest \<and>
           (\<not> createShaderOk gl VERTEX_SHADER \<longrightarrow>
              rest = [] \<and> fst (validate gl v f st) = st \<and>
              fst (snd (validate gl v f st)) =
                OnError (''VERTEX SHADER ERROR:'' @ [newline] @
                         parseErrorLog ''Failed to create shader'' 13)) \<and>
           (\<forall>info. createShaderOk gl VERTEX_SHADER \<and>
                   \<not> compileStatus gl VERTEX_SHADER (THREE_VERTEX_PREFIX @ v) \<and>
                   shaderInfoLog gl VERTEX_SHADER (THREE_VERTEX_PREFIX @ v) = Some info \<and>
                   info \<noteq> [] \<longrightarrow>
              rest = [] \<and> fst (validate gl v f st) = st \<and>
              fst (snd (validate gl v f st)) =
                OnError (''VERTEX SHADER ERROR:'' @ [newline] @ parseErrorLog info 13))"
proof (cases "truthy (error (fst (compile gl VERTEX_SHADER (THREE_VERTEX_PREFIX @ v) newContext)))")
  case True
  with assms show ?thesis
    by (auto simp: validate_def gl_defs VERTEX_OFFSET_eq Let_def split: if_splits)
next
  case False
  with assms show ?thesis
    by (auto simp: validate_def gl_defs VERTEX_OFFSET_eq Let_def
             split: if_splits option.splits prod.splits)
qed

theorem vertex_failure_reported_after_both_compiles_witness:
  "fst (validate vertexFailsDriver ''broken'' ''f'' (mount ''v'' ''f'')) = mount ''v'' ''f'' \<and>
   fst (snd (validate vertexFailsDriver ''broken'' ''f'' (mount ''v'' ''f''))) =
     OnError (''VERTEX SHADER ERROR:'' @ [newline] @ parseErrorLog ''ERROR: 0:14: x'' 13) \<and>
   calls (snd (snd (validate vertexFailsDriver ''broken'' ''f'' (mount ''v'' ''f'')))) =
     [CreateShader VERTEX_SHADER,
      ShaderSource 0 (THREE_VERTEX_PREFIX @ ''broken''), CompileShader 0, DeleteShader 0,
      CreateShader FRAGMENT_SHADER,
      ShaderSource 1 (THREE_FRAGMENT_PREFIX @ ''f''), CompileShader 1] \<and>
   (\<exists>rest. calls (snd (snd (validate acceptingDriver ''v2'' ''f2'' (mount ''v'' ''f'')))) =
      [CreateShader VERTEX_SHADER,
       ShaderSource 0 (THREE_VERTEX_PREFIX @ ''v2''), CompileShader 0,
       CreateShader FRAGMENT_SHADER,
       ShaderSource 1 (THREE_FRAGMENT_PREFIX @ ''f2''), CompileShader 1] @ rest)"
proof -
  have a: "contextAvailable vertexFailsDriver" "contextAvailable acceptingDriver"
    by (simp_all add: vertexFailsDriver_def acceptingDriver_def)
  from vertex_failure_reported_after_both_compiles
         [OF a(1), of "''broken''" "''f''" "mount ''v'' ''f''"]
  have "fst (validate vertexFailsDriver ''broken'' ''f'' (mount ''v'' ''f'')) = mount ''v'' ''f'' \<and>
   fst (snd (validate vertexFailsDriver ''broken'' ''f'' (mount ''v'' ''f''))) =
     OnError (''VERTEX SHADER ERROR:'' @ [newline] @ parseErrorLog ''ERROR: 0:14: x'' 13) \<and>
   calls (snd (snd (validate vertexFailsDriver ''broken'' ''f'' (mount ''v'' ''f'')))) =
     [CreateShader VERTEX_SHADER,
      ShaderSource 0 (THREE_VERTEX_PREFIX @ ''broken''), CompileShader 0, DeleteShader 0,
      CreateShader FRAGMENT_SHADER,
      ShaderSource 1 (THREE_FRAGMENT_PREFIX @ ''f''), CompileShader 1]"
    by (auto simp: vertexFailsDriver_def)
  moreover
  from vertex_failure_reported_after_both_compiles
         [OF a(2), of "''v2''" "''f2''" "mount ''v'' ''f''"]
  have "\<exists>rest. calls (snd (snd (validate acceptingDriver ''v2'' ''f2'' (mount ''v'' ''f'')))) =
      [CreateShader VERTEX_SHADER,
       ShaderSource 0 (THREE_VERTEX_PREFIX @ ''v2''), CompileShader 0,
       CreateShader FRAGMENT_SHADER,
       ShaderSource 1 (THREE_FRAGMENT_PREFIX @ ''f2''), CompileShader 1] @ rest"
    by (auto simp: acceptingDriver_def)
  ultimately show ?thesis by blast
qed

text \<open>
  Claim C4, at an input where the code departs from it.  The vertex stage compiles and the
  fragment stage fails: the effect reports the fragment error and returns before the
  cleanup block, and the vertex shader (handle 0) is still alive when it returns.
\<close>

theorem fragment_failure_leaks_vertex_shader:
  "validate fragmentFailsDriver ''v2'' ''broken'' (mount ''v'' ''f'') =
     (mount ''v'' ''f'',
      OnError (''FRAGMENT SHADER ERROR:'' @ [newline] @ ''ERROR: line 1: x''),
      \<lparr>nextHandle = 2, liveShaders = [0], livePrograms = [],
       calls = [CreateShader VERTEX_SHADER,
                ShaderSource 0 (THREE_VERTEX_PREFIX @ ''v2''), CompileShader 0,
                CreateShader FRAGMENT_SHADER,
                ShaderSource 1 (THREE_FRAGMENT_PREFIX @ ''broken''), CompileShader 1,
                DeleteShader 1]\<rparr>)"
  by (simp add: validate_def fragmentFailsDriver_def gl_defs FRAGMENT_OFFSET_eq
        parseErrorLog.simps(2) matchError_def replacement_def parseInt_def digitVal_def
        isDigit_def numberToString.simps digitChar_def)

section \<open>Properties of the light synchronisation\<close>

lemma upt_0_4: "[0..<4] = [0, 1, 2, 3]"
  by (simp add: upt_rec)

lemma resetAll_four:
  assumes "length ints = 4"
  shows "resetAll (NumArr ints) = Inr (NumArr (replicate 4 (Some 0)))"
proof -
  from assms obtain a b c d where "ints = [a, b, c, d]"
    by (auto simp: length_Suc_conv eval_nat_numeral)
  then show ?thesis
    by (simp add: resetAll_def upt_0_4 andThen_def arraySet_def eval_nat_numeral)
qed

lemma syncLight_step:
  assumes "k < length ps" "k < length cs" "k < length ints"
  shows "syncLight Color (l, k)
           \<lparr>lightPositions = Vec3Arr ps, lightColors = Vec3Arr cs, lightIntensities = NumArr ints\<rparr> =
         Inr \<lparr>lightPositions = Vec3Arr (ps[k := components (position l)]),
              lightColors = Vec3Arr (cs[k := components (Color (color l))]),
              lightIntensities = NumArr (ints[k := Some (intensity l)])\<rparr>"
  using assms by (simp add: syncLight_def andThen_def arraySet_def)

lemma forEach_syncLight:
  assumes "k + length ls \<le> length ps" "length cs = length ps" "length ints = length ps"
  shows "forEach (syncLight Color) (zip ls [k..<k + length ls])
           \<lparr>lightPositions = Vec3Arr ps, lightColors = Vec3Arr cs, lightIntensities = NumArr ints\<rparr> =
         Inr \<lparr>lightPositions =
                Vec3Arr (take k ps @ map (\<lambda>l. components (position l)) ls @ drop (k + length ls) ps),
              lightColors =
                Vec3Arr (take k cs @ map (\<lambda>l. components (Color (color l))) ls
                         @ drop (k + length ls) cs),
              lightIntensities =
                NumArr (take k ints @ map (\<lambda>l. Some (intensity l)) ls @ drop (k + length ls) ints)\<rparr>"
  using assms
proof (induction ls arbitrary: k ps cs ints)
  case Nil
  then show ?case by simp
next
  case (Cons l ls)
  have k: "k < length ps" "k < length cs" "k < length ints"
    using Cons.prems by simp_all
  have "k < k + length (l # ls)" by simp
  then have "[k..<k + length (l # ls)] = k # [Suc k..<k + length (l # ls)]"
    by (rule upt_conv_Cons)
  moreover have "k + length (l # ls) = Suc k + length ls" by simp
  ultimately have "[k..<k + length (l # ls)] = k # [Suc k..<Suc k + length ls]"
    by (simp only:)
  then have z: "zip (l # ls) [k..<k + length (l # ls)] = (l, k) # zip ls [Suc k..<Suc k + length ls]"
    by (simp only: zip_Cons_Cons)
  have upd: "\<And>xs x. k < length xs \<Longrightarrow>
      take (Suc k) (xs[k := x]) = take k xs @ [x] \<and>
      drop (Suc k + length ls) (xs[k := x]) = drop (Suc k + length ls) xs"
    by (simp add: take_Suc_conv_app_nth)
  have "forEach (syncLight Color) (zip (l # ls) [k..<k + length (l # ls)])
           \<lparr>lightPositions = Vec3Arr ps, lightColors = Vec3Arr cs, lightIntensities = NumArr ints\<rparr> =
        forEach (syncLight Color) (zip ls [Suc k..<Suc k + length ls])
           \<lparr>lightPositions = Vec3Arr (ps[k := components (position l)]),
            lightColors = Vec3Arr (cs[k := components (Color (color l))]),
            lightIntensities = NumArr (ints[k := Some (intensity l)])\<rparr>"
    by (simp only: z forEach.simps syncLight_step [OF k]) (simp add: andThen_def)
  also have "\<dots> = Inr \<lparr>lightPositions =
                Vec3Arr (take (Suc k) (ps[k := components (position l)])
                   @ map (\<lambda>l. components (position l)) ls
                   @ drop (Suc k + length ls) (ps[k := components (position l)])),
              lightColors =
                Vec3Arr (take (Suc k) (cs[k := components (Color (color l))])
                   @ map (\<lambda>l. components (Color (color l))) ls
                   @ drop (Suc k + length ls) (cs[k := components (Color (color l))])),
              lightIntensities =
                NumArr (take (Suc k) (ints[k := Some (intensity l)])
                   @ map (\<lambda>l. Some (intensity l)) ls
                   @ drop (Suc k + length ls) (ints[k := Some (intensity l)]))\<rparr>"
    using Cons.prems by (intro Cons.IH) simp_all
  finally show ?case
    using k by (simp add: upd)
qed

lemma syncLights_intact:
  assumes "u ''u_lightPos'' = Some (Vec3Arr ps)" and "length ps = 4"
    and "u ''u_lightColor'' = Some (Vec3Arr cs)" and "length cs = 4"
    and "u ''u_lightIntensity'' = Some (NumArr ints)" and "length ints = 4"
  shows "syncLights Color lights u =
           Inr (u(''u_lightPos'' \<mapsto>
                    Vec3Arr (map (\<lambda>l. components (position l)) (take 4 lights)
                             @ drop (length lights) ps),
                  ''u_lightColor'' \<mapsto>
                    Vec3Arr (map (\<lambda>l. components (Color (color l))) (take 4 lights)
                             @ drop (length lights) cs),
                  ''u_lightIntensity'' \<mapsto>
                    NumArr (map (\<lambda>l. Some (intensity l)) (take 4 lights)
                            @ replicate (4 - length lights) (Some 0)))) \<and>
         syncLights Color lights u = syncLights Color (take 4 lights) u"
proof
  let ?ls = "take 4 lights"
  have len: "0 + length ?ls \<le> length ps" "length cs = length ps"
       "length (replicate 4 (Some (0::real))) = length ps"
    using assms by simp_all
  have e: "enumerate_from0 ?ls = zip ?ls [0..<0 + length ?ls]"
    by (simp add: enumerate_from0_def)
  have d: "drop (length ?ls) ps = drop (length lights) ps"
          "drop (length ?ls) cs = drop (length lights) cs"
          "drop (length ?ls) (replicate 4 (Some (0::real))) = replicate (4 - length lights) (Some 0)"
    using assms by (simp_all add: min_def)
  show "syncLights Color lights u =
           Inr (u(''u_lightPos'' \<mapsto>
                    Vec3Arr (map (\<lambda>l. components (position l)) (take 4 lights)
                             @ drop (length lights) ps),
                  ''u_lightColor'' \<mapsto>
                    Vec3Arr (map (\<lambda>l. components (Color (color l))) (take 4 lights)
                             @ drop (length lights) cs),
                  ''u_lightIntensity'' \<mapsto>
                    NumArr (map (\<lambda>l. Some (intensity l)) (take 4 lights)
                            @ replicate (4 - length lights) (Some 0))))"
  proof -
    have f: "forEach (syncLight Color) (enumerate_from0 ?ls)
               \<lparr>lightPositions = Vec3Arr ps, lightColors = Vec3Arr cs,
                lightIntensities = NumArr (replicate 4 (Some 0))\<rparr> =
             Inr \<lparr>lightPositions =
                    Vec3Arr (map (\<lambda>l. components (position l)) ?ls @ drop (length lights) ps),
                  lightColors =
                    Vec3Arr (map (\<lambda>l. components (Color (color l))) ?ls @ drop (length lights) cs),
                  lightIntensities =
                    NumArr (map (\<lambda>l. Some (intensity l)) ?ls
                            @ replicate (4 - length lights) (Some 0))\<rparr>"
      unfolding e forEach_syncLight [OF len] using d by simp
    have "syncLights Color lights u =
            andThen (forEach (syncLight Color) (enumerate_from0 ?ls)
               \<lparr>lightPositions = Vec3Arr ps, lightColors = Vec3Arr cs,
                lightIntensities = NumArr (replicate 4 (Some 0))\<rparr>) (\<lambda>a.
             Inr (u(''u_lightPos'' \<mapsto> lightPositions a,
                    ''u_lightColor'' \<mapsto> lightColors a,
                    ''u_lightIntensity'' \<mapsto> lightIntensities a)))"
      by (simp add: syncLights_def entryValue_def assms(1,3,5) resetAll_four [OF assms(6)]
            andThen_def)
    also have "\<dots> = Inr (u(''u_lightPos'' \<mapsto>
                    Vec3Arr (map (\<lambda>l. components (position l)) (take 4 lights)
                             @ drop (length lights) ps),
                  ''u_lightColor'' \<mapsto>
                    Vec3Arr (map (\<lambda>l. components (Color (color l))) (take 4 lights)
                             @ drop (length lights) cs),
                  ''u_lightIntensity'' \<mapsto>
                    NumArr (map (\<lambda>l. Some (intensity l)) (take 4 lights)
                            @ replicate (4 - length lights) (Some 0))))"
      unfolding f by (simp add: andThen_def)
    finally show ?thesis .
  qed
next
  show "syncLights Color lights u = syncLights Color (take 4 lights) u"
    by (simp add: syncLights_def)
qed

lemma initialUniforms_lights:
  "initialUniforms ''u_lightPos'' = Some (Vec3Arr (replicate 4 (None, None, None)))"
  "initialUniforms ''u_lightColor'' = Some (Vec3Arr (replicate 4 (None, None, None)))"
  "initialUniforms ''u_lightIntensity'' = Some (NumArr (replicate 4 (Some 0)))"
  by (simp_all add: initialUniforms_def)

text \<open>
  Claim C7.  On a table whose three light entries hold their four-element arrays, the
  light pass writes the first \<open>min 4 N\<close> lights, in list order, into the first slots of
  \<^verbatim>\<open>u_lightPos\<close>, \<^verbatim>\<open>u_lightColor\<close> and \<^verbatim>\<open>u_lightIntensity\<close>; in the remaining slots
  the intensity is 0 and position and colour keep the values they had
  (\<open>drop (length lights) ps\<close>); the result is the same as for the first four lights
  alone, so a fifth or later light reaches no slot.
\<close>

theorem light_slots:
  assumes "u ''u_lightPos'' = Some (Vec3Arr ps)" and "length ps = 4"
    and "u ''u_lightColor'' = Some (Vec3Arr cs)" and "length cs = 4"
    and "u ''u_lightIntensity'' = Some (NumArr ints)" and "length ints = 4"
  shows "syncLights Color lights u =
           Inr (u(''u_lightPos'' \<mapsto>
                    Vec3Arr (map (\<lambda>l. components (position l)) (take 4 lights)
                             @ drop (length lights) ps),
                  ''u_lightColor'' \<mapsto>
                    Vec3Arr (map (\<lambda>l. components (Color (color l))) (take 4 lights)
                             @ drop (length lights) cs),
                  ''u_lightIntensity'' \<mapsto>
                    NumArr (map (\<lambda>l. Some (intensity l)) (take 4 lights)
                            @ replicate (4 - length lights) (Some 0)))) \<and>
         syncLights Color lights u = syncLights Color (take 4 lights) u"
  using assms by (rule syncLights_intact)

theorem light_slots_witness:
  "syncLights (\<lambda>c. (1, 1, 1))
     [\<lparr>light_id = ''l1'', position = (2, 2, 2), color = ''#ffffff'', intensity = 1\<rparr>,
      \<lparr>light_id = ''l2'', position = (0, 3, 1), color = ''#ffffff'', intensity = 5\<rparr>]
     initialUniforms =
   Inr (initialUniforms
         (''u_lightPos'' \<mapsto>
            Vec3Arr [(Some 2, Some 2, Some 2), (Some 0, Some 3, Some 1),
                     (None, None, None), (None, None, None)],
          ''u_lightColor'' \<mapsto>
            Vec3Arr [(Some 1, Some 1, Some 1), (Some 1, Some 1, Some 1),
                     (None, None, None), (None, None, None)],
          ''u_lightIntensity'' \<mapsto> NumArr [Some 1, Some 5, Some 0, Some 0])) \<and>
   syncLights (\<lambda>c. (1, 1, 1))
     (map (\<lambda>x. \<lparr>light_id = ''l'', position = (x, 0, 0), color = ''#ffffff'', intensity = x\<rparr>)
          [1, 2, 3, 4, 5, 6])
     initialUniforms =
   Inr (initialUniforms
         (''u_lightPos'' \<mapsto>
            Vec3Arr [(Some 1, Some 0, Some 0), (Some 2, Some 0, Some 0),
                     (Some 3, Some 0, Some 0), (Some 4, Some 0, Some 0)],
          ''u_lightColor'' \<mapsto>
            Vec3Arr [(Some 1, Some 1, Some 1), (Some 1, Some 1, Some 1),
                     (Some 1, Some 1, Some 1), (Some 1, Some 1, Some 1)],
          ''u_lightIntensity'' \<mapsto> NumArr [Some 1, Some 2, Some 3, Some 4]))"
  using light_slots
          [of initialUniforms "replicate 4 (None, None, None)" "replicate 4 (None, None, None)"
              "replicate 4 (Some 0)" "\<lambda>c. (1, 1, 1)"
              "[\<lparr>light_id = ''l1'', position = (2, 2, 2), color = ''#ffffff'', intensity = 1\<rparr>,
                \<lparr>light_id = ''l2'', position = (0, 3, 1), color = ''#ffffff'', intensity = 5\<rparr>]"]
        light_slots
          [of initialUniforms "replicate 4 (None, None, None)" "replicate 4 (None, None, None)"
              "replicate 4 (Some 0)" "\<lambda>c. (1, 1, 1)"
              "map (\<lambda>x. \<lparr>light_id = ''l'', position = (x, 0, 0), color = ''#ffffff'',
                          intensity = x\<rparr>) [1, 2, 3, 4, 5, 6]"]
  by (simp add: initialUniforms_def components_def eval_nat_numeral)

section \<open>Properties of the reconciliation effect\<close>

lemma andThen_Inr_iff: "andThen m f = Inr b \<longleftrightarrow> (\<exists>a. m = Inr a \<and> f a = Inr b)"
  by (cases m) (simp_all add: andThen_def)

lemma applyWrap_other: "n \<noteq> name c \<Longrightarrow> fst (applyWrap c um) n = fst um n"
  by (simp add: applyWrap_def split: option.splits jsval.splits)






text \<open>The shape of a step of the pass that returns.\<close>

lemma syncUniform_Inr:
  assumes "syncUniform c um = Inr um'"
  obtains w where "um' = (if type c = SAMPLER_2D then applyWrap c w else w)"
    and "w = um \<or>
         w = ((fst um)(name c \<mapsto> initialValue (type c) (value' c)), snd um) \<or>
         w = ((fst um)(name c \<mapsto> initialValue (type c) (value' c)),
              (snd um)\<lparr>needsUpdate := True\<rparr>)"
proof -
  let ?wrap = "\<lambda>w. if type c = SAMPLER_2D then applyWrap c w else w"
  let ?w1 = "((fst um)(name c \<mapsto> initialValue (type c) (value' c)), snd um)"
  let ?w2 = "((fst um)(name c \<mapsto> initialValue (type c) (value' c)),
              (snd um)\<lparr>needsUpdate := True\<rparr>)"
  have "syncUniform c um = Inl OutsideModel \<or> syncUniform c um = Inr (?wrap um) \<or>
        syncUniform c um = Inr (?wrap ?w1) \<or> syncUniform c um = Inr (?wrap ?w2)"
    by (simp add: syncUniform_def andThen_def split: option.splits)
  with assms have "um' = ?wrap um \<or> um' = ?wrap ?w1 \<or> um' = ?wrap ?w2"
    by auto
  then show ?thesis
  proof (elim disjE)
    assume "um' = ?wrap um"
    then show ?thesis by (intro that [of um]) simp_all
  next
    assume "um' = ?wrap ?w1"
    then show ?thesis by (intro that [of ?w1]) simp_all
  next
    assume "um' = ?wrap ?w2"
    then show ?thesis by (intro that [of ?w2]) simp_all
  qed
qed

lemma syncUniform_other:
  assumes "syncUniform c um = Inr um'" "n \<noteq> name c"
  shows "fst um' n = fst um n"
proof -
  from assms(1) obtain w where
    w: "um' = (if type c = SAMPLER_2D then applyWrap c w else w)"
       "w = um \<or>
         w = ((fst um)(name c \<mapsto> initialValue (type c) (value' c)), snd um) \<or>
         w = ((fst um)(name c \<mapsto> initialValue (type c) (value' c)),
              (snd um)\<lparr>needsUpdate := True\<rparr>)"
    by (rule syncUniform_Inr)
  from w(2) assms(2) have "fst w n = fst um n" by auto
  with w(1) assms(2) show ?thesis by (simp add: applyWrap_other)
qed







lemma syncCustomUniforms_Nil: "syncCustomUniforms [] um = Inr um"
  by (simp add: syncCustomUniforms_def)

lemma syncCustomUniforms_Cons:
  "syncCustomUniforms (c # cs) um = andThen (syncUniform c um) (syncCustomUniforms cs)"
  unfolding syncCustomUniforms_def by (simp add: ext)

lemma syncCustomUniforms_ConsE:
  assumes "syncCustomUniforms (c # cs) um = Inr um'"
  obtains um1 where "syncUniform c um = Inr um1" "syncCustomUniforms cs um1 = Inr um'"
  using assms by (auto simp: syncCustomUniforms_Cons andThen_Inr_iff)

lemma syncCustomUniforms_other:
  "syncCustomUniforms cs um = Inr um' \<Longrightarrow> n \<notin> name ` set cs \<Longrightarrow> fst um' n = fst um n"
proof (induction cs arbitrary: um)
  case Nil
  then show ?case by (simp add: syncCustomUniforms_Nil)
next
  case (Cons c cs)
  from Cons.prems(1) obtain um1 where
    s: "syncUniform c um = Inr um1" "syncCustomUniforms cs um1 = Inr um'"
    by (rule syncCustomUniforms_ConsE)
  from Cons.prems(2) have "n \<noteq> name c" "n \<notin> name ` set cs" by auto
  with syncUniform_other [OF s(1)] Cons.IH [OF s(2)] show ?case by simp
qed



















section \<open>The uniform table across a program replacement\<close>

lemma validate_uniforms: "uniforms (fst (validate gl v f st)) = uniforms st"
  by (simp add: validate_def setSafe_def Let_def split: prod.splits option.splits)

text \<open>
  Claim C5 as stated fails.  A reconciliation creates the entry \<^verbatim>\<open>u_custom_1\<close>; then a
  new pair of sources, in which that name does not occur, is validated and promoted (the
  material key changes, so the material is rebuilt): the entry is still in the table.
\<close>

theorem custom_entry_survives_program_replacement:
  "(case reconcile (\<lambda>c. (1, 1, 1)) [customFloat] []
           (mount ''void main(){gl_Position=vec4(position,1.0);}''
                  ''void main(){gl_FragColor=vec4(1.0);}'') of
      Inl e \<Rightarrow> False
    | Inr st1 \<Rightarrow>
        (let st2 = fst (validate acceptingDriver
                          ''void main(){gl_Position=vec4(position,2.0);}''
                          ''void main(){gl_FragColor=vec4(0.5);}'' st1)
         in uniforms st1 ''u_custom_1'' = Some (Num 0.5) \<and>
            materialKey st2 \<noteq> materialKey st1 \<and>
            safeVertex st2 = ''void main(){gl_Position=vec4(position,2.0);}'' \<and>
            safeFragment st2 = ''void main(){gl_FragColor=vec4(0.5);}'' \<and>
            \<not> occursIn ''u_custom_1''
                (''void main(){gl_Position=vec4(position,2.0);}'' @
                 ''void main(){gl_FragColor=vec4(0.5);}'') \<and>
            uniforms st2 ''u_custom_1'' = Some (Num 0.5)))"
proof -
  let ?u = "initialUniforms(''u_custom_1'' \<mapsto> Num 0.5)"
  let ?V = "''void main(){gl_Position=vec4(position,1.0);}''"
  let ?F = "''void main(){gl_FragColor=vec4(1.0);}''"
  let ?V2 = "''void main(){gl_Position=vec4(position,2.0);}''"
  let ?F2 = "''void main(){gl_FragColor=vec4(0.5);}''"
  have s: "syncCustomUniforms [customFloat] (initialUniforms, newMaterial) =
             Inr (?u, newMaterial\<lparr>needsUpdate := True\<rparr>)"
    by (simp add: syncCustomUniforms_def syncUniform_def andThen_def customFloat_def
          initialUniforms_def objectPrototypeNames_def)
  have l: "\<And>x. syncLights (\<lambda>c. (1, 1, 1)) [] (initialUniforms(''u_custom_1'' \<mapsto> x)) =
             Inr (initialUniforms(''u_custom_1'' \<mapsto> x,
                     ''u_lightPos'' \<mapsto> Vec3Arr (replicate 4 (None, None, None)),
                     ''u_lightColor'' \<mapsto> Vec3Arr (replicate 4 (None, None, None)),
                     ''u_lightIntensity'' \<mapsto> NumArr (replicate 4 (Some 0))))"
  proof -
    fix x
    show "syncLights (\<lambda>c. (1, 1, 1)) [] (initialUniforms(''u_custom_1'' \<mapsto> x)) =
             Inr (initialUniforms(''u_custom_1'' \<mapsto> x,
                     ''u_lightPos'' \<mapsto> Vec3Arr (replicate 4 (None, None, None)),
                     ''u_lightColor'' \<mapsto> Vec3Arr (replicate 4 (None, None, None)),
                     ''u_lightIntensity'' \<mapsto> NumArr (replicate 4 (Some 0))))"
      using syncLights_intact
            [of "initialUniforms(''u_custom_1'' \<mapsto> x)" "replicate 4 (None, None, None)"
                "replicate 4 (None, None, None)" "replicate 4 (Some 0)" "\<lambda>c. (1, 1, 1)" "[]"]
      by (simp add: initialUniforms_lights)
  qed
  define st1 where "st1 =
     \<lparr>safeVertex = ?V, safeFragment = ?F,
      uniforms = ?u(''u_lightPos'' \<mapsto> Vec3Arr (replicate 4 (None, None, None)),
                    ''u_lightColor'' \<mapsto> Vec3Arr (replicate 4 (None, None, None)),
                    ''u_lightIntensity'' \<mapsto> NumArr (replicate 4 (Some 0))),
      materialRef = Some (newMaterial\<lparr>needsUpdate := True, uniformsNeedUpdate := True\<rparr>)\<rparr>"
  have r: "reconcile (\<lambda>c. (1, 1, 1)) [customFloat] [] (mount ?V ?F) = Inr st1"
    by (simp add: reconcile_def mount_def s l andThen_def st1_def Let_def)
  have u1: "uniforms st1 ''u_custom_1'' = Some (Num 0.5)"
    by (simp add: st1_def)
  have v: "validate acceptingDriver ?V2 ?F2 st1 =
             (setSafe ?V2 ?F2 st1, OnSuccess,
              snd (snd (validate acceptingDriver ?V2 ?F2 st1)))"
    by (simp add: validate_def acceptingDriver_def gl_defs)
  have k: "materialKey (setSafe ?V2 ?F2 st1) \<noteq> materialKey st1"
          "safeVertex (setSafe ?V2 ?F2 st1) = ?V2" "safeFragment (setSafe ?V2 ?F2 st1) = ?F2"
    by (simp_all add: setSafe_def materialKey_def st1_def)
  have o: "\<not> occursIn ''u_custom_1'' (?V2 @ ?F2)"
    by simp
  have u2: "uniforms (fst (validate acceptingDriver ?V2 ?F2 st1)) ''u_custom_1'' = Some (Num 0.5)"
    by (simp only: validate_uniforms u1)
  have f: "fst (validate acceptingDriver ?V2 ?F2 st1) = setSafe ?V2 ?F2 st1"
    using v by (metis fst_conv)
  show ?thesis
    unfolding r using u1 k o u2 by (simp add: f Let_def del: append.simps)
qed

text \<open>
  Claim C5, amended.  Replacing the active program leaves the uniform table as it is: the
  table is built once and handed to every rebuilt material, so each entry, built-in or
  created by a reconciliation, is still there with its value after a validation,
  whatever the new sources declare.
\<close>

theorem uniform_table_kept_across_replacement:
  "uniforms (fst (validate gl vertexShader fragmentShader st)) = uniforms st"
  by (rule validate_uniforms)

section \<open>Properties of the render loop\<close>












































section \<open>Properties of the light list\<close>

lemma perform_bounded: "length lights \<le> 4 \<Longrightarrow> length (perform a lights) \<le> 4"
proof (cases a)
  case (AddLight newId)
  assume "length lights \<le> 4"
  then show ?thesis using AddLight by (simp add: addLight_def)
next
  case (RemoveLight i)
  assume "length lights \<le> 4"
  moreover have "length (removeLight i lights) \<le> length lights"
    by (simp add: removeLight_def)
  ultimately show ?thesis using RemoveLight by simp
next
  case (UpdateLight i field)
  assume "length lights \<le> 4"
  then show ?thesis using UpdateLight by (simp add: updateLight_def)
qed

lemma performAll_bounded:
  "length lights \<le> 4 \<Longrightarrow> length (performAll actions lights) \<le> 4"
  unfolding performAll_def
  by (induction actions arbitrary: lights) (simp_all add: perform_bounded)

text \<open>
  Claim C10.  \<open>addLight\<close> leaves a list of four or more lights unchanged, \<open>removeLight\<close>
  and \<open>updateLight\<close> never make the list longer, and from a list of at most four lights
  every sequence of the three actions leads to a list of at most four lights.
\<close>

theorem light_list_at_most_four:
  "(4 \<le> length lights \<longrightarrow> addLight newId lights = lights) \<and>
   length (removeLight i lights) \<le> length lights \<and>
   length (updateLight i field lights) = length lights \<and>
   (length lights \<le> 4 \<longrightarrow> length (performAll actions lights) \<le> 4)"
  by (simp add: addLight_def removeLight_def updateLight_def performAll_bounded)

theorem light_list_at_most_four_witness:
  "addLight ''e''
     (replicate 4 \<lparr>light_id = ''a'', position = (2, 2, 2), color = ''#ffffff'', intensity = 1\<rparr>) =
     replicate 4 \<lparr>light_id = ''a'', position = (2, 2, 2), color = ''#ffffff'', intensity = 1\<rparr> \<and>
   length (performAll [AddLight ''b'', AddLight ''c'', AddLight ''d'', AddLight ''e'',
                       UpdateLight ''b'' (Field_intensity 3), RemoveLight ''c'', AddLight ''f'']
             [\<lparr>light_id = ''a'', position = (2, 2, 2), color = ''#ffffff'', intensity = 1\<rparr>]) \<le> 4"
proof -
  let ?l = "\<lparr>light_id = ''a'', position = (2, 2, 2), color = ''#ffffff'', intensity = 1\<rparr>"
  have "(4::nat) \<le> length (replicate 4 ?l)" by simp
  moreover have "length [?l] \<le> 4" by simp
  ultimately show ?thesis
    using light_list_at_most_four
            [of "replicate 4 ?l" "''e''" "''a''" "Field_color ''x''"]
          light_list_at_most_four
            [of "[?l]" "''e''" "''a''" "Field_color ''x''"
                "[AddLight ''b'', AddLight ''c'', AddLight ''d'', AddLight ''e'',
                       UpdateLight ''b'' (Field_intensity 3), RemoveLight ''c'', AddLight ''f'']"]
    by blast
qed

end
